theory Spec2Isabelle
  imports Complex_Main "HOL-Library.Word"
begin

section \<open>JavaScript strings\<close>

text \<open>
  A JavaScript string is a sequence of UTF-16 code units; \<open>length\<close>, \<open>substring\<close>,
  \<open>split\<close>, \<open>trim\<close> and a regular expression without the \<open>u\<close> flag all work on
  code units. \<open>js\<close> turns an ASCII literal into such a string.
\<close>

type_synonym jsstring = "16 word list"

definition js :: "string \<Rightarrow> jsstring" where
  "js s = map (\<lambda>c. of_char c) s"

text \<open>
  The regular expression class \<open>\s\<close> and the characters \<open>String.prototype.trim\<close> and
  \<open>parseInt\<close> skip are the same set: ECMAScript's WhiteSpace and LineTerminator.
\<close>

definition isWhiteSpace :: "16 word \<Rightarrow> bool" where
  "isWhiteSpace c \<longleftrightarrow>
     c \<in> {0x0009, 0x000A, 0x000B, 0x000C, 0x000D, 0x0020, 0x00A0, 0x1680,
          0x2028, 0x2029, 0x202F, 0x205F, 0x3000, 0xFEFF}
     \<or> (0x2000 \<le> c \<and> c \<le> 0x200A)"

text \<open>\<open>s.trim()\<close>: white space removed at both ends.\<close>

definition trim :: "jsstring \<Rightarrow> jsstring" where
  "trim s = rev (dropWhile isWhiteSpace (rev (dropWhile isWhiteSpace s)))"

text \<open>
  \<open>s.split(/\s+/)\<close>. The separator cannot match the empty string, so the empty string
  splits into one empty piece. Otherwise the scan looks for the next position where
  \<open>\s+\<close> matches (the next white space character), cuts the piece before it, and resumes
  behind the whole run, which the greedy \<open>+\<close> has consumed; the rest after the last match
  is the last piece.
\<close>

function split_ws :: "jsstring \<Rightarrow> jsstring list" where
  "split_ws s =
     (case dropWhile (\<lambda>c. \<not> isWhiteSpace c) s of
        [] \<Rightarrow> [s]
      | w # rest \<Rightarrow>
          takeWhile (\<lambda>c. \<not> isWhiteSpace c) s # split_ws (dropWhile isWhiteSpace rest))"
  by pat_completeness auto
termination
proof (relation "measure length")
  fix s :: jsstring and w rest
  assume d: "dropWhile (\<lambda>c. \<not> isWhiteSpace c) s = w # rest"
  have "length (dropWhile isWhiteSpace rest) \<le> length rest"
    by (rule length_dropWhile_le)
  moreover have "length (w # rest) \<le> length s"
    unfolding d [symmetric] by (rule length_dropWhile_le)
  ultimately show "(dropWhile isWhiteSpace rest, s) \<in> measure length"
    by simp
qed simp

declare split_ws.simps [simp del]

section \<open>Content accessors on strings\<close>

text \<open>
  \<open>html.replace(/<[^>]*>/g, '')\<close>. At a \<open><\<close> the pattern matches if and only if a
  \<open>>\<close> follows somewhere, and then up to the first such \<open>>\<close> (the class \<open>[^>]\<close>
  accepts every other code unit, line breaks and \<open><\<close> included). The match is deleted
  and the scan resumes behind it; any other code unit is kept.
\<close>

function stripHtml :: "jsstring \<Rightarrow> jsstring" where
  "stripHtml [] = []"
| "stripHtml (c # cs) =
     (if c = 0x3C \<and> 0x3E \<in> set cs
      then stripHtml (tl (dropWhile (\<lambda>x. x \<noteq> 0x3E) cs))
      else c # stripHtml cs)"
  by pat_completeness auto
termination
proof (relation "measure length")
  fix c :: "16 word" and cs :: jsstring
  have "length (tl (dropWhile (\<lambda>x. x \<noteq> 0x3E) cs)) \<le> length cs"
    using length_dropWhile_le [of "\<lambda>x. x \<noteq> 0x3E" cs] by simp
  then show "(tl (dropWhile (\<lambda>x. x \<noteq> 0x3E) cs), c # cs) \<in> measure length"
    by simp
qed simp_all

text \<open>
  \<open>calculateReadingTime\<close> repeats the tag-stripping expression of \<open>stripHtml\<close> inline.
  \<open>wordCount\<close> is the length of the array \<open>split\<close> returns, and the result is
  \<open>Math.ceil(wordCount / 200)\<close>. (The quotient of an array length by 200 is computed in
  double precision; its error is far below the distance \<open>1/200\<close> of an inexact quotient
  from the next integer, so the ceiling is the mathematical one.)
\<close>

definition calculateReadingTime :: "jsstring \<Rightarrow> int" where
  "calculateReadingTime content =
     (let text = stripHtml content;
          wordCount = length (split_ws text);
          readingTime = \<lceil>real wordCount / 200\<rceil>
      in readingTime)"

text \<open>
  \<open>createExcerpt(content, maxLength = 150)\<close>; \<open>None\<close> is the omitted argument.
  \<open>maxLength\<close> is an integer; \<open>substring(0, maxLength)\<close> takes a negative bound as 0.
\<close>

definition createExcerpt :: "jsstring \<Rightarrow> int option \<Rightarrow> jsstring" where
  "createExcerpt content maxLength_arg =
     (let maxLength = (case maxLength_arg of None \<Rightarrow> 150 | Some m \<Rightarrow> m);
          text = stripHtml content
      in if int (length text) \<le> maxLength then text
         else trim (take (nat maxLength) text) @ js ''...'')"

text \<open>
  The same with only trailing white space removed (\<open>s.trimEnd()\<close>), which the source
  does not call: the reading of ``trims trailing whitespace'' to which \<open>trim\<close> is compared.
\<close>

definition trimEnd :: "jsstring \<Rightarrow> jsstring" where
  "trimEnd s = rev (dropWhile isWhiteSpace (rev s))"

section \<open>Numbers\<close>

text \<open>
  The numbers of the pagination code come from \<open>parseInt\<close> and from integer literals:
  \<open>NaN\<close>, an infinity, or an integer that is a double (every integer below \<open>2^53\<close> in
  absolute value is one; above, a multiple of a power of two with a 53-bit quotient).
  Minus zero, which \<open>parseInt("-0")\<close> returns, compares and prints as zero and is not
  told apart from it.
\<close>

datatype jsnum = NaN | Num int | PosInfinity | NegInfinity

text \<open>The comparison \<open>a <= b\<close> of two numbers: false when one of them is \<open>NaN\<close>.\<close>

fun num_le :: "jsnum \<Rightarrow> jsnum \<Rightarrow> bool" where
  "num_le NaN b = False"
| "num_le a NaN = False"
| "num_le (Num a) (Num b) = (a \<le> b)"
| "num_le NegInfinity b = True"
| "num_le a PosInfinity = True"
| "num_le PosInfinity b = False"
| "num_le a NegInfinity = False"

text \<open>The number of binary digits of a positive integer.\<close>

function bitlen :: "int \<Rightarrow> nat" where
  "bitlen a = (if a \<le> 0 then 0 else Suc (bitlen (a div 2)))"
  by pat_completeness auto
termination
  by (relation "measure nat") auto

declare bitlen.simps [simp del]

text \<open>
  The Number value of a mathematical integer: the integer itself below \<open>2^53\<close> in
  absolute value (\<open>2^53 = 9007199254740992\<close>); otherwise the nearest double, which keeps
  the 53 leading binary digits and rounds at the rest \<open>r\<close>, a tie to the even quotient,
  and is an infinity from \<open>2^1024\<close> on.
\<close>

definition toNumber :: "int \<Rightarrow> jsnum" where
  "toNumber v =
     (let a = \<bar>v\<bar>
      in if a < 9007199254740992 then Num v
         else
           let e = bitlen a - 53;
               q = a div 2 ^ e;
               r = a mod 2 ^ e;
               q' = (if 2 ^ e < 2 * r \<or> (2 * r = 2 ^ e \<and> odd q) then q + 1 else q);
               m = q' * 2 ^ e
           in if 2 ^ 1024 \<le> m then (if v < 0 then NegInfinity else PosInfinity)
              else Num (if v < 0 then - m else m))"

text \<open>
  The value of a code unit as a digit, \<open>0-9\<close>, \<open>a-z\<close> or \<open>A-Z\<close>; 36, which is no
  digit of any radix, for every other code unit.
\<close>

definition digitValue :: "16 word \<Rightarrow> nat" where
  "digitValue c =
     (if 0x30 \<le> c \<and> c \<le> 0x39 then unat c - 0x30
      else if 0x61 \<le> c \<and> c \<le> 0x7A then unat c - 0x61 + 10
      else if 0x41 \<le> c \<and> c \<le> 0x5A then unat c - 0x41 + 10
      else 36)"

text \<open>
  \<open>parseInt(string)\<close> with no radix argument: leading white space is skipped, one sign is
  read, the prefix \<open>0x\<close> or \<open>0X\<close> selects radix 16 and is removed, otherwise the radix is
  10; then the longest prefix of digits of that radix is read, and the result is the
  Number value of that integer with the sign, and \<open>NaN\<close> if the prefix is empty.
  \<open>unsignedPart\<close> is the string behind the white space and the sign.
\<close>

definition unsignedPart :: "jsstring \<Rightarrow> jsstring" where
  "unsignedPart string =
     (let S = dropWhile isWhiteSpace string
      in if S \<noteq> [] \<and> (hd S = 0x2B \<or> hd S = 0x2D) then tl S else S)"

fun hasHexPrefix :: "jsstring \<Rightarrow> bool" where
  "hasHexPrefix (a # b # S) = (a = 0x30 \<and> (b = 0x78 \<or> b = 0x58))"
| "hasHexPrefix S = False"

definition digitsToNumber :: "nat \<Rightarrow> int \<Rightarrow> jsstring \<Rightarrow> jsnum" where
  "digitsToNumber R sign S =
     (let Z = takeWhile (\<lambda>c. digitValue c < R) S
      in if Z = [] then NaN
         else toNumber (sign * foldl (\<lambda>a c. a * int R + int (digitValue c)) 0 Z))"

definition parseInt :: "jsstring \<Rightarrow> jsnum" where
  "parseInt string =
     (let S = dropWhile isWhiteSpace string;
          sign = (if S \<noteq> [] \<and> hd S = 0x2D then - 1 else 1);
          S = unsignedPart string
      in if hasHexPrefix S then digitsToNumber 16 sign (drop 2 S)
         else digitsToNumber 10 sign S)"

text \<open>
  Whether a string starts with a number for \<open>parseInt\<close>: behind the white space and the
  sign comes a hexadecimal digit after \<open>0x\<close> or \<open>0X\<close>, a decimal digit otherwise.
\<close>

definition startsWithDigits :: "jsstring \<Rightarrow> bool" where
  "startsWithDigits string =
     (let S = unsignedPart string
      in if hasHexPrefix S then drop 2 S \<noteq> [] \<and> digitValue (hd (drop 2 S)) < 16
         else S \<noteq> [] \<and> digitValue (hd S) < 10)"

text \<open>The decimal digits of an integer that is not negative.\<close>

function decimal :: "int \<Rightarrow> jsstring" where
  "decimal n =
     (if n < 10 then [0x30 + of_int n]
      else decimal (n div 10) @ [0x30 + of_int (n mod 10)])"
  by pat_completeness auto
termination
  by (relation "measure nat") auto

declare decimal.simps [simp del]

text \<open>
  \<open>n.toString()\<close> prints the shortest digits \<open>s\<close> that determine the double: \<open>k\<close>
  digits, as few as possible, such that \<open>s * 10^(n - k)\<close> has the double \<open>a\<close> as its
  Number value, and of two such \<open>s\<close> the one nearer to \<open>a\<close>, the even one at equal
  distance. For an integer \<open>a\<close> of \<open>d\<close> digits, \<open>n\<close> is \<open>d\<close>, or \<open>d + 1\<close> with the
  single digit 1 when \<open>a\<close> is the Number value of \<open>10^d\<close>. \<open>shortestDigits\<close> returns
  \<open>(n, k, s)\<close>.
\<close>

definition digitCandidates :: "int \<Rightarrow> nat \<Rightarrow> nat \<Rightarrow> int list" where
  "digitCandidates a d k =
     (let e = d - k;
          s0 = a div 10 ^ e;
          c = filter (\<lambda>s. 10 ^ (k - 1) \<le> s \<and> s < 10 ^ k
                           \<and> toNumber (s * 10 ^ e) = Num a) [s0, s0 + 1]
      in case c of
           [s1, s2] \<Rightarrow>
             (let d1 = a - s1 * 10 ^ e; d2 = s2 * 10 ^ e - a
              in if d1 < d2 \<or> (d1 = d2 \<and> even s1) then [s1] else [s2])
         | _ \<Rightarrow> c)"

definition shortestDigits :: "int \<Rightarrow> nat \<times> nat \<times> int" where
  "shortestDigits a =
     (let d = length (decimal a)
      in if toNumber (10 ^ d) = Num a then (d + 1, 1, 1)
         else (case List.find (\<lambda>k. digitCandidates a d k \<noteq> []) [1..<Suc d] of
                 None \<Rightarrow> (d, d, a)
               | Some k \<Rightarrow> (d, k, hd (digitCandidates a d k))))"

text \<open>
  \<open>absToString\<close> prints a number that is not negative: the digits in full, followed by
  \<open>n - k\<close> zeros, up to 21 places; beyond that in exponent form. Below \<open>2^53\<close> every
  integer is a double and its shortest digits with their zeros are its decimal digits.
\<close>

definition absToString :: "int \<Rightarrow> jsstring" where
  "absToString a =
     (if a < 9007199254740992 then decimal a
      else
        let (n, k, s) = shortestDigits a
        in if n \<le> 21 then decimal s @ replicate (n - k) 0x30
           else if k = 1 then decimal s @ js ''e+'' @ decimal (int n - 1)
           else hd (decimal s) # 0x2E # tl (decimal s) @ js ''e+'' @ decimal (int n - 1))"

fun numToString :: "jsnum \<Rightarrow> jsstring" where
  "numToString NaN = js ''NaN''"
| "numToString PosInfinity = js ''Infinity''"
| "numToString NegInfinity = js ''-Infinity''"
| "numToString (Num n) = (if n < 0 then 0x2D # absToString (- n) else absToString n)"

text \<open>
  A string as \<open>URLSearchParams\<close> stores it: a surrogate code unit that is not part of a
  pair (a high one followed by a low one) is replaced by \<open>U+FFFD\<close>.
\<close>

definition isHighSurrogate :: "16 word \<Rightarrow> bool" where
  "isHighSurrogate c \<longleftrightarrow> 0xD800 \<le> c \<and> c \<le> 0xDBFF"

definition isLowSurrogate :: "16 word \<Rightarrow> bool" where
  "isLowSurrogate c \<longleftrightarrow> 0xDC00 \<le> c \<and> c \<le> 0xDFFF"

fun toUSVString :: "jsstring \<Rightarrow> jsstring" where
  "toUSVString [] = []"
| "toUSVString [c] = (if isHighSurrogate c \<or> isLowSurrogate c then [0xFFFD] else [c])"
| "toUSVString (c # d # cs) =
     (if isHighSurrogate c \<and> isLowSurrogate d then c # d # toUSVString cs
      else if isHighSurrogate c \<or> isLowSurrogate c then 0xFFFD # toUSVString (d # cs)
      else c # toUSVString (d # cs))"

section \<open>Values decoded from JSON\<close>

text \<open>
  What \<open>response.json()\<close> returns. An object is the list of its own properties, each key
  once; a number is given by its value. \<open>json option\<close> adds \<open>undefined\<close> as \<open>None\<close>.
\<close>

datatype json =
    JNull
  | JBool bool
  | JNum rat
  | JStr jsstring
  | JArr "json list"
  | JObj "(jsstring \<times> json) list"

text \<open>Truthiness, as \<open>||\<close>, \<open>!\<close> and \<open>if\<close> test it.\<close>

fun truthy :: "json \<Rightarrow> bool" where
  "truthy JNull = False"
| "truthy (JBool b) = b"
| "truthy (JNum r) = (r \<noteq> 0)"
| "truthy (JStr s) = (s \<noteq> [])"
| "truthy (JArr xs) = True"
| "truthy (JObj kvs) = True"

text \<open>\<open>a || b\<close>, where \<open>a\<close> may be \<open>undefined\<close>.\<close>

fun or_else :: "json option \<Rightarrow> json \<Rightarrow> json" where
  "or_else None b = b"
| "or_else (Some a) b = (if truthy a then a else b)"

text \<open>
  \<open>v.k\<close> for a value \<open>v\<close> other than \<open>null\<close> and a key \<open>k\<close> that no built-in prototype
  defines (the source reads \<open>_embedded\<close>, \<open>author\<close> and \<open>name\<close>): the own property
  of an object, \<open>undefined\<close> on any other value.
\<close>

fun member :: "jsstring \<Rightarrow> json \<Rightarrow> json option" where
  "member k (JObj kvs) = map_of kvs k"
| "member k v = None"

text \<open>
  \<open>v[0]\<close> for a value \<open>v\<close> other than \<open>null\<close>: the first element of an array, the first
  code unit of a string, the property \<open>"0"\<close> of an object, \<open>undefined\<close> otherwise.
\<close>

fun index0 :: "json \<Rightarrow> json option" where
  "index0 (JArr xs) = (case xs of [] \<Rightarrow> None | x # _ \<Rightarrow> Some x)"
| "index0 (JStr s) = (case s of [] \<Rightarrow> None | c # _ \<Rightarrow> Some (JStr [c]))"
| "index0 (JObj kvs) = map_of kvs (js ''0'')"
| "index0 v = None"

text \<open>
  Optional chaining \<open>a?.f\<close>: \<open>undefined\<close> when \<open>a\<close> is \<open>undefined\<close> or \<open>null\<close>, and
  then every later link of the chain is \<open>undefined\<close> too.
\<close>

fun opt_chain :: "json option \<Rightarrow> (json \<Rightarrow> json option) \<Rightarrow> json option" where
  "opt_chain None f = None"
| "opt_chain (Some JNull) f = None"
| "opt_chain (Some v) f = f v"

datatype error = Error jsstring | TypeError | SyntaxError

text \<open>
  \<open>getAuthorName(post)\<close>:
  \<open>post._embedded?.author?.[0]?.name || 'Unknown Author'\<close>. The first property access
  has no \<open>?.\<close> and throws a \<open>TypeError\<close> on \<open>null\<close>.
\<close>

definition getAuthorName :: "json \<Rightarrow> error + json" where
  "getAuthorName post =
     (if post = JNull then Inl TypeError
      else Inr (or_else
        (opt_chain (opt_chain (opt_chain (member (js ''_embedded'') post)
           (member (js ''author''))) index0) (member (js ''name'')))
        (JStr (js ''Unknown Author''))))"

section \<open>The CMS client\<close>

text \<open>
  The upstream is a parameter: \<open>fetch\<close> maps a request to its outcome. A request is
  \<open>GET ${WP_API_URL}/posts?${queryParams}\<close>, given by the list of pairs that the
  \<open>URLSearchParams\<close> object holds, or \<open>GET ${WP_API_URL}/posts?slug=${slug}&_embed=true\<close>,
  given by the slug. The outcome is a rejected promise (no response at all) or a response:
  its \<open>ok\<close> flag, \<open>headers.get\<close> as a map (\<open>None\<close> is \<open>null\<close>), and what \<open>json()\<close>
  yields, \<open>None\<close> when the body does not parse.
\<close>

datatype request =
    GetPosts "(jsstring \<times> jsstring) list"
  | GetPostBySlug jsstring

record response =
  ok :: bool
  headers :: "jsstring \<Rightarrow> jsstring option"
  body :: "json option"

datatype fetch_outcome = Rejected | Response response

text \<open>
  The arguments of \<open>getPosts\<close>; \<open>None\<close> is a property left out, which the destructuring
  replaces by its default. A filter is a string or a number (the category pages pass the
  numeric \<open>category.id\<close>).
\<close>

datatype jsval = VStr jsstring | VNum jsnum

fun truthy_val :: "jsval \<Rightarrow> bool" where
  "truthy_val (VStr s) = (s \<noteq> [])"
| "truthy_val (VNum NaN) = False"
| "truthy_val (VNum (Num n)) = (n \<noteq> 0)"
| "truthy_val (VNum PosInfinity) = True"
| "truthy_val (VNum NegInfinity) = True"

text \<open>
  The value that \<open>queryParams.append\<close> stores for a filter: its string, with lone
  surrogates replaced (the string of a number has none).
\<close>

fun valToString :: "jsval \<Rightarrow> jsstring" where
  "valToString (VStr s) = toUSVString s"
| "valToString (VNum n) = numToString n"

record params =
  page :: "jsnum option"
  perPage :: "jsnum option"
  categories :: "jsval option"
  search :: "jsval option"

record page_result =
  posts :: json
  totalPages :: jsnum
  totalPosts :: jsnum
  currentPage :: jsnum

text \<open>The destructuring defaults of \<open>getPosts\<close>.\<close>

definition page_of :: "params \<Rightarrow> jsnum" where
  "page_of ps = (case page ps of None \<Rightarrow> Num 1 | Some p \<Rightarrow> p)"

definition perPage_of :: "params \<Rightarrow> jsnum" where
  "perPage_of ps = (case perPage ps of None \<Rightarrow> Num 9 | Some s \<Rightarrow> s)"

definition categories_of :: "params \<Rightarrow> jsval" where
  "categories_of ps = (case categories ps of None \<Rightarrow> VStr [] | Some c \<Rightarrow> c)"

definition search_of :: "params \<Rightarrow> jsval" where
  "search_of ps = (case search ps of None \<Rightarrow> VStr [] | Some q \<Rightarrow> q)"

text \<open>The \<open>URLSearchParams\<close> that \<open>getPosts\<close> builds, in the order of its entries.\<close>

definition queryParams :: "params \<Rightarrow> (jsstring \<times> jsstring) list" where
  "queryParams ps =
     [(js ''page'', numToString (page_of ps)),
      (js ''per_page'', numToString (perPage_of ps)),
      (js ''_embed'', js ''true'')]
     @ (if truthy_val (categories_of ps)
        then [(js ''categories'', valToString (categories_of ps))] else [])
     @ (if truthy_val (search_of ps)
        then [(js ''search'', valToString (search_of ps))] else [])"

text \<open>\<open>h || d\<close> for a header value \<open>h\<close>, which is a string or \<open>null\<close>.\<close>

fun str_or :: "jsstring option \<Rightarrow> jsstring \<Rightarrow> jsstring" where
  "str_or None d = d"
| "str_or (Some h) d = (if h = [] then d else h)"

text \<open>
  The body of the \<open>try\<close> block of \<open>getPosts\<close>: \<open>Inl\<close> is the exception it throws. A
  rejected \<open>fetch\<close> throws a \<open>TypeError\<close>, a body that does not parse a \<open>SyntaxError\<close>.
\<close>

definition getPosts_try :: "(request \<Rightarrow> fetch_outcome) \<Rightarrow> params \<Rightarrow> error + page_result" where
  "getPosts_try fetch ps =
     (case fetch (GetPosts (queryParams ps)) of
        Rejected \<Rightarrow> Inl TypeError
      | Response r \<Rightarrow>
          if \<not> ok r then Inl (Error (js ''Failed to fetch posts''))
          else
            let totalPages' = parseInt (str_or (headers r (js ''X-WP-TotalPages'')) (js ''1''));
                totalPosts' = parseInt (str_or (headers r (js ''X-WP-Total'')) (js ''0''))
            in (case body r of
                  None \<Rightarrow> Inl SyntaxError
                | Some posts' \<Rightarrow>
                    Inr \<lparr>posts = posts', totalPages = totalPages',
                         totalPosts = totalPosts', currentPage = page_of ps\<rparr>))"

text \<open>\<open>getPosts\<close>: the \<open>catch\<close> clause logs the exception and returns the empty result.\<close>

definition getPosts :: "(request \<Rightarrow> fetch_outcome) \<Rightarrow> params \<Rightarrow> page_result" where
  "getPosts fetch ps =
     (case getPosts_try fetch ps of
        Inr result \<Rightarrow> result
      | Inl e \<Rightarrow> \<lparr>posts = JArr [], totalPages = Num 1, totalPosts = Num 0, currentPage = Num 1\<rparr>)"

text \<open>
  \<open>getPostBySlug\<close>: the \<open>try\<close> block, where \<open>posts[0]\<close> throws a \<open>TypeError\<close> when the
  body is \<open>null\<close>, and the function with its \<open>catch\<close> clause, which returns \<open>null\<close>.
\<close>

definition getPostBySlug_try :: "(request \<Rightarrow> fetch_outcome) \<Rightarrow> jsstring \<Rightarrow> error + json" where
  "getPostBySlug_try fetch slug =
     (case fetch (GetPostBySlug slug) of
        Rejected \<Rightarrow> Inl TypeError
      | Response r \<Rightarrow>
          if \<not> ok r then Inl (Error (js ''Failed to fetch post''))
          else (case body r of
                  None \<Rightarrow> Inl SyntaxError
                | Some posts' \<Rightarrow>
                    if posts' = JNull then Inl TypeError
                    else Inr (or_else (index0 posts') JNull)))"

definition getPostBySlug :: "(request \<Rightarrow> fetch_outcome) \<Rightarrow> jsstring \<Rightarrow> json" where
  "getPostBySlug fetch slug =
     (case getPostBySlug_try fetch slug of Inr post \<Rightarrow> post | Inl e \<Rightarrow> JNull)"

section \<open>The page renderers' calls\<close>

text \<open>
  \<open>HomePage\<close> and \<open>CategoryPage\<close> both compute
  \<open>page = parseInt(searchParams?.page || '1')\<close> from the \<open>page\<close> parameter of the URL,
  a string or \<open>undefined\<close>, and call \<open>getPosts\<close> with \<open>perPage: 9\<close>; the category page
  adds \<open>categories: category.id\<close>.
\<close>

definition requestedPage :: "jsstring option \<Rightarrow> jsnum" where
  "requestedPage searchParams_page = parseInt (str_or searchParams_page (js ''1''))"

definition HomePage_params :: "jsstring option \<Rightarrow> params" where
  "HomePage_params searchParams_page =
     \<lparr>page = Some (requestedPage searchParams_page), perPage = Some (Num 9),
      categories = None, search = None\<rparr>"


section \<open>The page result invariant\<close>

text \<open>
  The invariant of a page result for a requested page size \<open>s\<close>: the current page and the
  number of pages are at least 1, and the items are a sequence of at most \<open>s\<close> elements.
\<close>

definition PageResult_invariant :: "jsnum \<Rightarrow> page_result \<Rightarrow> bool" where
  "PageResult_invariant s r \<longleftrightarrow>
     num_le (Num 1) (currentPage r) \<and> num_le (Num 1) (totalPages r)
     \<and> (case posts r of JArr items \<Rightarrow> num_le (Num (int (length items))) s | _ \<Rightarrow> False)"

section \<open>Sample upstreams and posts\<close>

text \<open>
  Upstreams that answer every request alike: with a server error; with no answer; as
  WordPress answers for a collection without posts (both totals 0, an empty array); with
  two pages of twelve posts in the headers and an empty array (a page behind the last);
  with totals that are no numbers; and with a post but neither header.
\<close>

definition upstream_error :: "request \<Rightarrow> fetch_outcome" where
  "upstream_error q = Response \<lparr>ok = False, headers = Map.empty, body = None\<rparr>"

definition upstream_down :: "request \<Rightarrow> fetch_outcome" where
  "upstream_down q = Rejected"

definition upstream_no_posts :: "request \<Rightarrow> fetch_outcome" where
  "upstream_no_posts q =
     Response \<lparr>ok = True,
               headers = [js ''X-WP-Total'' \<mapsto> js ''0'', js ''X-WP-TotalPages'' \<mapsto> js ''0''],
               body = Some (JArr [])\<rparr>"

definition upstream_two_pages :: "request \<Rightarrow> fetch_outcome" where
  "upstream_two_pages q =
     Response \<lparr>ok = True,
               headers = [js ''X-WP-Total'' \<mapsto> js ''12'', js ''X-WP-TotalPages'' \<mapsto> js ''2''],
               body = Some (JArr [])\<rparr>"

definition upstream_bad_header :: "request \<Rightarrow> fetch_outcome" where
  "upstream_bad_header q =
     Response \<lparr>ok = True,
               headers = [js ''X-WP-Total'' \<mapsto> js ''many'', js ''X-WP-TotalPages'' \<mapsto> js ''abc''],
               body = Some (JArr [])\<rparr>"

definition upstream_no_headers :: "request \<Rightarrow> fetch_outcome" where
  "upstream_no_headers q =
     Response \<lparr>ok = True, headers = Map.empty,
               body = Some (JArr [JObj [(js ''slug'', JStr (js ''hello-world''))]])\<rparr>"

text \<open>
  Posts: one whose first embedded author has the empty name, one whose author is named,
  and one without embedded records.
\<close>

definition post_empty_name :: json where
  "post_empty_name =
     JObj [(js ''id'', JNum 1),
           (js ''_embedded'', JObj [(js ''author'', JArr [JObj [(js ''name'', JStr [])]])])]"

definition post_named :: json where
  "post_named =
     JObj [(js ''id'', JNum 2),
           (js ''_embedded'', JObj [(js ''author'', JArr [JObj [(js ''name'', JStr (js ''Ann''))]])])]"

definition post_plain :: json where
  "post_plain = JObj [(js ''id'', JNum 3)]"

section \<open>Tag stripping and splitting\<close>

lemma stripHtml_no_lt: "0x3C \<notin> set xs \<Longrightarrow> stripHtml (xs @ ys) = xs @ stripHtml ys"
  by (induction xs) auto

lemma stripHtml_tag:
  assumes "0x3E \<notin> set xs"
  shows "stripHtml (0x3C # xs @ 0x3E # ys) = stripHtml ys"
proof -
  have "dropWhile (\<lambda>x. x \<noteq> 0x3E) (xs @ 0x3E # ys) = 0x3E # ys"
    using assms by (auto simp: dropWhile_append3 dropWhile_eq_Nil_conv)
  then show ?thesis by simp
qed

lemma split_ws_no_ws:
  assumes "\<forall>c\<in>set s. \<not> isWhiteSpace c"
  shows "split_ws s = [s]"
proof -
  have d: "dropWhile (\<lambda>c. \<not> isWhiteSpace c) s = []"
    using assms by simp
  show ?thesis
    by (subst split_ws.simps) (simp only: d list.case)
qed

lemma split_ws_word:
  assumes "\<forall>c\<in>set w. \<not> isWhiteSpace c" and "isWhiteSpace d"
    and "rest = [] \<or> \<not> isWhiteSpace (hd rest)"
  shows "split_ws (w @ d # rest) = w # split_ws rest"
proof -
  have 1: "dropWhile (\<lambda>c. \<not> isWhiteSpace c) (w @ d # rest) = d # rest"
    using assms(1,2) by (auto simp: dropWhile_append3 dropWhile_eq_Nil_conv)
  have 2: "takeWhile (\<lambda>c. \<not> isWhiteSpace c) (w @ d # rest) = w"
    using assms(1,2) by (simp add: takeWhile_tail)
  have 3: "dropWhile isWhiteSpace rest = rest"
    using assms(3) by (cases rest) auto
  show ?thesis
    by (subst split_ws.simps) (simp add: 1 2 3)
qed

lemma split_ws_repeat:
  assumes "\<forall>c\<in>set w. \<not> isWhiteSpace c" and "isWhiteSpace d" and "w \<noteq> []"
  shows "split_ws (concat (replicate n (w @ [d]))) = replicate n w @ [[]]"
proof (induction n)
  case 0
  show ?case by (simp add: split_ws_no_ws)
next
  case (Suc n)
  let ?rest = "concat (replicate n (w @ [d]))"
  have "?rest = [] \<or> \<not> isWhiteSpace (hd ?rest)"
    using assms(1,3) by (cases n) (auto simp: hd_append)
  then have "split_ws (w @ d # ?rest) = w # split_ws ?rest"
    by (rule split_ws_word [OF assms(1,2)])
  then show ?case using Suc by simp
qed

section \<open>Reading time\<close>

lemma split_ws_nonempty: "split_ws s \<noteq> []"
  by (subst split_ws.simps) (simp split: list.split)

lemma ceiling_div_200: "\<lceil>real n / 200\<rceil> = (int n + 199) div 200"
proof -
  have "\<lceil>real n / 200\<rceil> = \<lceil>real_of_int (int n) / real_of_int 200\<rceil>"
    by simp
  also have "\<dots> = - (- int n div 200)"
    by (simp only: ceiling_divide_eq_div)
  also have "\<dots> = (int n + 199) div 200"
    by linarith
  finally show ?thesis .
qed

lemma calculateReadingTime_eq:
  "calculateReadingTime content = (int (length (split_ws (stripHtml content))) + 199) div 200"
  by (simp add: calculateReadingTime_def Let_def ceiling_div_200)

text \<open>
  C9. For every content string, the empty one and those made of tags or white space only
  included, the reading time is at least 1: the array that \<open>split\<close> returns is never
  empty.
\<close>

theorem calculateReadingTime_ge_1: "1 \<le> calculateReadingTime content"
proof -
  have "1 \<le> length (split_ws (stripHtml content))"
    using split_ws_nonempty [of "stripHtml content"] by (simp add: Suc_le_eq)
  then have "1 \<le> (int (length (split_ws (stripHtml content))) + 199) div 200"
    by linarith
  then show ?thesis
    by (simp add: calculateReadingTime_def Let_def ceiling_div_200)
qed

lemma js_word: "js ''word '' = js ''word'' @ [0x20]"
  by (simp add: js_def)

text \<open>
  C2. The reading time is the ceiling of the length of the split array over 200, but that
  length is not the number of words: for \<open>"<p>" + "word ".repeat(400) + "</p>"\<close>
  the array has 401 elements, the last one the empty string behind the final blank, and
  the result is 3, not 2; for the empty string the array is \<open>[""]\<close> and the result is
  1, not 0.
\<close>

theorem calculateReadingTime_400_words:
  "calculateReadingTime (js ''<p>'' @ concat (replicate 400 (js ''word '')) @ js ''</p>'') = 3
   \<and> calculateReadingTime (js '''') = 1"
proof
  let ?body = "concat (replicate 400 (js ''word ''))"
  have cs: "set (js ''word '') = {0x77, 0x6F, 0x72, 0x64, 0x20}"
    by (simp add: js_def)
  have nolt: "0x3C \<notin> set ?body"
    by (simp add: cs)
  have "stripHtml (js ''<p>'' @ ?body @ js ''</p>'') = stripHtml (?body @ js ''</p>'')"
    using stripHtml_tag [of "js ''p''" "?body @ js ''</p>''"] by (simp add: js_def)
  also have "\<dots> = ?body @ stripHtml (js ''</p>'')"
    using nolt by (rule stripHtml_no_lt)
  also have "stripHtml (js ''</p>'') = []"
    by (simp add: js_def)
  finally have strip: "stripHtml (js ''<p>'' @ ?body @ js ''</p>'') = ?body"
    by simp
  have "split_ws ?body = replicate 400 (js ''word'') @ [[]]"
    unfolding js_word by (rule split_ws_repeat) (simp_all add: js_def isWhiteSpace_def)
  then have "length (split_ws ?body) = 401"
    by simp
  then show "calculateReadingTime (js ''<p>'' @ ?body @ js ''</p>'') = 3"
    by (simp add: calculateReadingTime_eq strip)
  show "calculateReadingTime (js '''') = 1"
    by (simp add: calculateReadingTime_eq js_def split_ws.simps)
qed

section \<open>Excerpts\<close>

lemma trim_spec:
  "\<exists>l t. s = l @ trim s @ t \<and> (\<forall>c\<in>set l. isWhiteSpace c) \<and> (\<forall>c\<in>set t. isWhiteSpace c)
     \<and> (trim s = [] \<or> \<not> isWhiteSpace (hd (trim s)) \<and> \<not> isWhiteSpace (last (trim s)))"
proof -
  let ?m = "dropWhile isWhiteSpace s"
  let ?l = "takeWhile isWhiteSpace s"
  let ?t = "rev (takeWhile isWhiteSpace (rev ?m))"
  have 1: "s = ?l @ ?m" by simp
  have "rev (rev ?m) = rev (takeWhile isWhiteSpace (rev ?m) @ dropWhile isWhiteSpace (rev ?m))"
    by (simp only: takeWhile_dropWhile_id)
  then have 2: "?m = trim s @ ?t"
    by (simp only: rev_rev_ident rev_append trim_def)
  have 3: "\<forall>c\<in>set ?l. isWhiteSpace c"
    by (auto dest: set_takeWhileD)
  have 4: "\<forall>c\<in>set ?t. isWhiteSpace c"
    by (auto dest: set_takeWhileD)
  have 5: "trim s = [] \<or> \<not> isWhiteSpace (last (trim s))"
    using hd_dropWhile [of isWhiteSpace "rev ?m"] by (auto simp: trim_def last_rev)
  have 6: "trim s = [] \<or> \<not> isWhiteSpace (hd (trim s))"
  proof (cases "trim s = []")
    case False
    then have "?m \<noteq> []" using 2 by (metis append_is_Nil_conv)
    then have "\<not> isWhiteSpace (hd ?m)" by (rule hd_dropWhile)
    moreover have "hd ?m = hd (trim s)" using 2 False by (metis hd_append2)
    ultimately show ?thesis by simp
  qed simp
  have "s = ?l @ trim s @ ?t" using 1 2 by metis
  with 3 4 5 6 show ?thesis by blast
qed

lemma trim_eq_trimEnd: "s = [] \<or> \<not> isWhiteSpace (hd s) \<Longrightarrow> trim s = trimEnd s"
  by (cases s) (auto simp: trim_def trimEnd_def)

text \<open>
  C7, as the code has it. \<open>createExcerpt\<close> strips the tags; a text of at most
  \<open>maxLength\<close> code units is returned unchanged, with no ellipsis; a longer one is cut
  to its first \<open>maxLength\<close> code units, trimmed of white space at both ends (only
  white space is removed, and what remains neither starts nor ends with white space), and
  \<open>...\<close> is appended.
  An omitted \<open>maxLength\<close> is 150.
\<close>

theorem createExcerpt_spec:
  "(int (length (stripHtml content)) \<le> maxLength \<longrightarrow>
      createExcerpt content (Some maxLength) = stripHtml content)
   \<and> (maxLength < int (length (stripHtml content)) \<longrightarrow>
      createExcerpt content (Some maxLength)
        = trim (take (nat maxLength) (stripHtml content)) @ js ''...''
      \<and> (\<exists>l t. take (nat maxLength) (stripHtml content)
                  = l @ trim (take (nat maxLength) (stripHtml content)) @ t
            \<and> (\<forall>c\<in>set l. isWhiteSpace c) \<and> (\<forall>c\<in>set t. isWhiteSpace c)
            \<and> (trim (take (nat maxLength) (stripHtml content)) = []
                 \<or> \<not> isWhiteSpace (hd (trim (take (nat maxLength) (stripHtml content))))
                   \<and> \<not> isWhiteSpace (last (trim (take (nat maxLength) (stripHtml content)))))))
   \<and> createExcerpt content None = createExcerpt content (Some 150)"
proof (intro conjI impI)
  show "\<exists>l t. take (nat maxLength) (stripHtml content)
                  = l @ trim (take (nat maxLength) (stripHtml content)) @ t
            \<and> (\<forall>c\<in>set l. isWhiteSpace c) \<and> (\<forall>c\<in>set t. isWhiteSpace c)
            \<and> (trim (take (nat maxLength) (stripHtml content)) = []
                 \<or> \<not> isWhiteSpace (hd (trim (take (nat maxLength) (stripHtml content))))
                   \<and> \<not> isWhiteSpace (last (trim (take (nat maxLength) (stripHtml content)))))"
    by (rule trim_spec)
qed (simp_all add: createExcerpt_def Let_def)

text \<open>
  The two examples: \<open>createExcerpt("word ".repeat(40), 10)\<close> and
  \<open>createExcerpt("short text", 150)\<close>.
\<close>

theorem createExcerpt_spec_witness:
  "createExcerpt (concat (replicate 40 (js ''word ''))) (Some 10) = js ''word word...''
   \<and> createExcerpt (js ''short text'') (Some 150) = js ''short text''"
proof
  let ?c = "concat (replicate 40 (js ''word ''))"
  have long: "10 < int (length (stripHtml ?c))"
    by code_simp
  with createExcerpt_spec [of ?c 10]
  have "createExcerpt ?c (Some 10) = trim (take (nat 10) (stripHtml ?c)) @ js ''...''"
    by blast
  also have "\<dots> = js ''word word...''"
    by code_simp
  finally show "createExcerpt ?c (Some 10) = js ''word word...''" .
  have short: "int (length (stripHtml (js ''short text''))) \<le> 150"
    by code_simp
  with createExcerpt_spec [of "js ''short text''" 150]
  have "createExcerpt (js ''short text'') (Some 150) = stripHtml (js ''short text'')"
    by blast
  also have "\<dots> = js ''short text''"
    by code_simp
  finally show "createExcerpt (js ''short text'') (Some 150) = js ''short text''" .
qed

text \<open>
  With only trailing white space trimmed the excerpt of \<open>" hello world"\<close> at length 5
  would be \<open>" hell..."\<close>; the code returns \<open>"hell..."\<close>.
\<close>

theorem createExcerpt_counterexample:
  "createExcerpt (js '' hello world'') (Some 5)
     \<noteq> trimEnd (take (nat 5) (stripHtml (js '' hello world''))) @ js ''...''"
  by code_simp

section \<open>Parsing and printing numbers\<close>

lemma js_eq_Nil [simp]: "js s = [] \<longleftrightarrow> s = []"
  by (simp add: js_def)

lemma toNumber_safe: "\<bar>v\<bar> < 9007199254740992 \<Longrightarrow> toNumber v = Num v"
  by (simp add: toNumber_def)

lemma toNumber_not_NaN: "toNumber v \<noteq> NaN"
  by (simp add: toNumber_def Let_def)

lemma digit_cases: "0 \<le> k \<Longrightarrow> k < 10 \<Longrightarrow> k \<in> {0, 1, 2, 3, 4, 5, 6, 7, 8, 9::int}"
  by simp arith

lemma digitValue_digit: "0 \<le> k \<Longrightarrow> k < 10 \<Longrightarrow> int (digitValue (0x30 + of_int k)) = k"
  by (drule (1) digit_cases) (auto simp: digitValue_def)

lemma digit_range:
  "0 \<le> k \<Longrightarrow> k < 10 \<Longrightarrow>
     0x30 \<le> (0x30 + of_int k :: 16 word) \<and> (0x30 + of_int k :: 16 word) \<le> 0x39"
  by (drule (1) digit_cases) auto

lemma decimal_nonempty: "decimal n \<noteq> []"
  by (subst decimal.simps) simp

lemma decimal_digits: "0 \<le> n \<Longrightarrow> c \<in> set (decimal n) \<Longrightarrow> 0x30 \<le> c \<and> c \<le> 0x39"
proof (induction n rule: decimal.induct)
  case (1 n)
  show ?case
  proof (cases "n < 10")
    case True
    with "1.prems" have "c = 0x30 + of_int n"
      by (subst (asm) decimal.simps) simp
    with True "1.prems" show ?thesis using digit_range [of n] by simp
  next
    case False
    with "1.prems" have "c \<in> set (decimal (n div 10)) \<or> c = 0x30 + of_int (n mod 10)"
      by (subst (asm) decimal.simps) auto
    moreover have "0 \<le> n div 10"
      using "1.prems" by simp
    ultimately show ?thesis
      using "1.IH" [OF False] digit_range [of "n mod 10"] by auto
  qed
qed

lemma foldl_decimal:
  "0 \<le> n \<Longrightarrow> foldl (\<lambda>a c. a * 10 + int (digitValue c)) 0 (decimal n) = n"
proof (induction n rule: decimal.induct)
  case (1 n)
  show ?case
  proof (cases "n < 10")
    case True
    with "1.prems" show ?thesis
      by (subst decimal.simps) (simp add: digitValue_digit)
  next
    case False
    moreover have "0 \<le> n div 10"
      using "1.prems" by simp
    ultimately show ?thesis
      using "1.IH" [OF False] by (subst decimal.simps) (simp add: digitValue_digit)
  qed
qed

lemma digit_facts:
  assumes "0x30 \<le> c \<and> c \<le> (0x39 :: 16 word)"
  shows "\<not> isWhiteSpace c" and "c \<noteq> 0x2B" and "c \<noteq> 0x2D" and "c \<noteq> 0x78" and "c \<noteq> 0x58"
    and "digitValue c < 10"
  using assms by (auto simp: isWhiteSpace_def digitValue_def unat_sub word_le_nat_alt)

lemma parseInt_digit_string:
  assumes ne: "S \<noteq> []" and dig: "\<And>c. c \<in> set S \<Longrightarrow> 0x30 \<le> c \<and> c \<le> 0x39"
  shows "parseInt S = toNumber (foldl (\<lambda>a c. a * 10 + int (digitValue c)) 0 S)"
    and "parseInt (0x2D # S) = toNumber (- foldl (\<lambda>a c. a * 10 + int (digitValue c)) 0 S)"
proof -
  have "hd S \<in> set S"
    using ne by simp
  then have hd: "0x30 \<le> hd S \<and> hd S \<le> 0x39"
    by (rule dig)
  have ws: "dropWhile isWhiteSpace S = S"
    using digit_facts(1) [OF hd] ne by (cases S) auto
  have plus: "hd S \<noteq> 0x2B" and minus: "hd S \<noteq> 0x2D"
    using digit_facts(2,3) [OF hd] by simp_all
  have nohex: "\<not> hasHexPrefix S"
  proof (cases S rule: hasHexPrefix.cases)
    case (1 a b S')
    then have "0x30 \<le> b \<and> b \<le> 0x39"
      using dig [of b] by simp
    from digit_facts(4,5) [OF this] 1 show ?thesis
      by simp
  qed simp_all
  have tw: "takeWhile (\<lambda>c. digitValue c < 10) S = S"
    using dig digit_facts(6) by (simp add: takeWhile_eq_all_conv)
  have num: "digitsToNumber 10 sign S
               = toNumber (sign * foldl (\<lambda>a c. a * 10 + int (digitValue c)) 0 S)" for sign
    by (simp add: digitsToNumber_def tw ne)
  have u1: "unsignedPart S = S"
    using ne plus minus by (simp add: unsignedPart_def ws)
  show "parseInt S = toNumber (foldl (\<lambda>a c. a * 10 + int (digitValue c)) 0 S)"
    using ne minus nohex by (simp add: parseInt_def ws u1 num)
  have m: "\<not> isWhiteSpace 0x2D"
    by (simp add: isWhiteSpace_def)
  then have u2: "unsignedPart (0x2D # S) = S"
    by (simp add: unsignedPart_def)
  show "parseInt (0x2D # S) = toNumber (- foldl (\<lambda>a c. a * 10 + int (digitValue c)) 0 S)"
    using nohex by (simp add: parseInt_def u2 num m)
qed

lemma numToString_safe:
  "\<bar>n\<bar> < 9007199254740992 \<Longrightarrow>
     numToString (Num n) = (if n < 0 then 0x2D # decimal (- n) else decimal n)"
  by (auto simp: absToString_def)

lemma parseInt_numToString:
  assumes "\<bar>n\<bar> < 9007199254740992"
  shows "parseInt (numToString (Num n)) = Num n"
proof (cases "n < 0")
  case False
  then have "\<And>c. c \<in> set (decimal n) \<Longrightarrow> 0x30 \<le> c \<and> c \<le> 0x39"
    using decimal_digits [of n] by simp
  with False have "parseInt (decimal n) = toNumber n"
    using parseInt_digit_string(1) [of "decimal n", OF decimal_nonempty]
    by (simp add: foldl_decimal)
  with False assms show ?thesis
    by (simp add: numToString_safe toNumber_safe del: numToString.simps)
next
  case True
  then have "\<And>c. c \<in> set (decimal (- n)) \<Longrightarrow> 0x30 \<le> c \<and> c \<le> 0x39"
    using decimal_digits [of "- n"] by simp
  with True have "parseInt (0x2D # decimal (- n)) = toNumber (- (- n))"
    using parseInt_digit_string(2) [of "decimal (- n)", OF decimal_nonempty]
    by (simp add: foldl_decimal)
  with True assms show ?thesis
    by (simp add: numToString_safe toNumber_safe del: numToString.simps)
qed

lemma parseInt_NaN_iff: "parseInt h = NaN \<longleftrightarrow> \<not> startsWithDigits h"
  by (simp add: parseInt_def startsWithDigits_def digitsToNumber_def Let_def
      toNumber_not_NaN takeWhile_eq_Nil_iff)

text \<open>
  Above \<open>2^53\<close> the digits printed are the shortest that give the double back, and
  from \<open>10^21\<close> on they are printed in exponent form.
\<close>

lemma numToString_examples:
  "numToString (Num 1152921504606846976) = js ''1152921504606847000''"
  "numToString (Num (10 ^ 21)) = js ''1e+21''"
  "numToString (Num (- 42)) = js ''-42''"
  by code_simp+

lemma absToString_nonempty: "absToString a \<noteq> []"
  by (simp add: absToString_def decimal_nonempty split: prod.split)

lemma numToString_nonempty: "numToString n \<noteq> []"
  by (cases n) (simp_all add: absToString_nonempty)

lemma str_or_numToString: "str_or (Some (numToString n)) d = numToString n"
  by (simp add: numToString_nonempty del: numToString.simps)

section \<open>Fetching posts\<close>

lemma parseInt_2: "parseInt (js ''2'') = Num 2"
  by code_simp

lemma parseInt_5: "parseInt (js ''5'') = Num 5"
  by code_simp

text \<open>
  C1. Whatever the page number, page size, category filter and search string: when the
  upstream answers the request with a non-success status, the \<open>try\<close> block throws
  \<open>Error('Failed to fetch posts')\<close> and \<open>getPosts\<close> returns the empty result
  \<open>{posts: [], totalPages: 1, totalPosts: 0, currentPage: 1}\<close>; no exception leaves
  \<open>getPosts\<close>, whose result is a page result in every case.
\<close>

theorem getPosts_non_success:
  assumes "fetch (GetPosts (queryParams ps)) = Response r" and "\<not> ok r"
  shows "getPosts_try fetch ps = Inl (Error (js ''Failed to fetch posts''))
         \<and> getPosts fetch ps
             = \<lparr>posts = JArr [], totalPages = Num 1, totalPosts = Num 0, currentPage = Num 1\<rparr>"
  using assms by (simp add: getPosts_def getPosts_try_def)

text \<open>The home page asks for page 7 and the upstream answers with a server error.\<close>

theorem getPosts_non_success_witness:
  "getPosts upstream_error (HomePage_params (Some (js ''7'')))
     = \<lparr>posts = JArr [], totalPages = Num 1, totalPosts = Num 0, currentPage = Num 1\<rparr>"
proof -
  let ?r = "\<lparr>ok = False, headers = Map.empty, body = None\<rparr>"
  have h1: "upstream_error (GetPosts (queryParams (HomePage_params (Some (js ''7'')))))
              = Response ?r"
    by (simp add: upstream_error_def)
  have h2: "\<not> ok ?r"
    by simp
  from getPosts_non_success [of upstream_error "HomePage_params (Some (js ''7''))" ?r, OF h1 h2] show ?thesis
    by (rule conjunct2)
qed

text \<open>
  C3. On a successful response with a decodable body, \<open>currentPage\<close> is the requested
  page as it was passed in (1 if it was left out), whatever the headers say: it is not
  compared with \<open>totalPages\<close>, so it may exceed it.
\<close>

theorem getPosts_currentPage:
  assumes "fetch (GetPosts (queryParams ps)) = Response r" and "ok r" and "body r = Some b"
  shows "currentPage (getPosts fetch ps) = (case page ps of None \<Rightarrow> Num 1 | Some p \<Rightarrow> p)"
  using assms by (simp add: getPosts_def getPosts_try_def Let_def page_of_def)

text \<open>
  Page 5 is requested and the headers announce two pages: the result has
  \<open>currentPage = 5\<close> and \<open>totalPages = 2\<close>.
\<close>

theorem getPosts_currentPage_witness:
  "currentPage (getPosts upstream_two_pages (HomePage_params (Some (js ''5'')))) = Num 5
   \<and> totalPages (getPosts upstream_two_pages (HomePage_params (Some (js ''5'')))) = Num 2"
proof
  let ?r = "\<lparr>ok = True,
             headers = [js ''X-WP-Total'' \<mapsto> js ''12'', js ''X-WP-TotalPages'' \<mapsto> js ''2''],
             body = Some (JArr [])\<rparr>"
  let ?ps = "HomePage_params (Some (js ''5''))"
  have h1: "upstream_two_pages (GetPosts (queryParams ?ps)) = Response ?r"
    by (simp add: upstream_two_pages_def)
  have h2: "ok ?r" and h3: "body ?r = Some (JArr [])"
    by simp_all
  have "currentPage (getPosts upstream_two_pages ?ps)
          = (case page ?ps of None \<Rightarrow> Num 1 | Some p \<Rightarrow> p)"
    by (rule getPosts_currentPage [of upstream_two_pages ?ps ?r, OF h1 h2 h3])
  also have "\<dots> = Num 5"
    by (simp add: HomePage_params_def requestedPage_def parseInt_5)
  finally show "currentPage (getPosts upstream_two_pages ?ps) = Num 5" .
  show "totalPages (getPosts upstream_two_pages ?ps) = Num 2"
    by (simp add: getPosts_def getPosts_try_def upstream_two_pages_def parseInt_2)
qed

section \<open>Fetching one post\<close>

text \<open>
  C8. \<open>getPostBySlug\<close> returns \<open>null\<close> when the request succeeds with an empty array
  of posts, and the same \<open>null\<close> when the request fails: no response at all, a
  non-success status, or a body that does not decode.
\<close>

theorem getPostBySlug_not_found:
  assumes "fetch1 (GetPostBySlug slug1) = Response r" and "ok r" and "body r = Some (JArr [])"
    and "fetch2 (GetPostBySlug slug2) = Rejected
         \<or> (\<exists>r'. fetch2 (GetPostBySlug slug2) = Response r' \<and> (\<not> ok r' \<or> body r' = None))"
  shows "getPostBySlug fetch1 slug1 = JNull
         \<and> getPostBySlug fetch2 slug2 = getPostBySlug fetch1 slug1"
proof -
  have 1: "getPostBySlug fetch1 slug1 = JNull"
    using assms(1-3) by (simp add: getPostBySlug_def getPostBySlug_try_def)
  have 2: "getPostBySlug fetch2 slug2 = JNull"
    using assms(4) by (auto simp: getPostBySlug_def getPostBySlug_try_def)
  from 1 2 show ?thesis by simp
qed

text \<open>An upstream without posts and an upstream that does not answer.\<close>

theorem getPostBySlug_not_found_witness:
  "getPostBySlug upstream_no_posts (js ''no-such-post'') = JNull
   \<and> getPostBySlug upstream_down (js ''hello-world'')
       = getPostBySlug upstream_no_posts (js ''no-such-post'')"
proof -
  let ?r = "\<lparr>ok = True,
             headers = [js ''X-WP-Total'' \<mapsto> js ''0'', js ''X-WP-TotalPages'' \<mapsto> js ''0''],
             body = Some (JArr [])\<rparr>"
  have h1: "upstream_no_posts (GetPostBySlug (js ''no-such-post'')) = Response ?r"
    by (simp add: upstream_no_posts_def)
  have h2: "ok ?r" and h3: "body ?r = Some (JArr [])"
    by simp_all
  have h4: "upstream_down (GetPostBySlug (js ''hello-world'')) = Rejected
         \<or> (\<exists>r'. upstream_down (GetPostBySlug (js ''hello-world'')) = Response r'
                \<and> (\<not> ok r' \<or> body r' = None))"
    by (simp add: upstream_down_def)
  show ?thesis
    by (rule getPostBySlug_not_found [of upstream_no_posts "js ''no-such-post''" ?r
          upstream_down "js ''hello-world''", OF h1 h2 h3 h4])
qed

section \<open>The author name\<close>

lemma js_neq: "js ''id'' \<noteq> js ''_embedded''" "js ''_embedded'' \<noteq> js ''id''"
  by (simp_all add: js_def)

text \<open>
  C10. For a post object, \<open>getAuthorName\<close> returns \<open>'Unknown Author'\<close> when the
  embedded records, the author list or its first element are absent and when the first
  author has no name, and also when the name is present but falsy, the empty string in
  particular; a truthy name is returned as it is.
\<close>

theorem getAuthorName_fallback:
  assumes "post = JObj kvs"
  shows "(map_of kvs (js ''_embedded'') = None
           \<longrightarrow> getAuthorName post = Inr (JStr (js ''Unknown Author'')))
   \<and> (map_of kvs (js ''_embedded'') = Some (JObj e) \<and> map_of e (js ''author'') = None
        \<longrightarrow> getAuthorName post = Inr (JStr (js ''Unknown Author'')))
   \<and> (map_of kvs (js ''_embedded'') = Some (JObj e) \<and> map_of e (js ''author'') = Some (JArr [])
        \<longrightarrow> getAuthorName post = Inr (JStr (js ''Unknown Author'')))
   \<and> (map_of kvs (js ''_embedded'') = Some (JObj e)
        \<and> map_of e (js ''author'') = Some (JArr (JObj a # others))
        \<longrightarrow> (map_of a (js ''name'') = None
               \<longrightarrow> getAuthorName post = Inr (JStr (js ''Unknown Author'')))
          \<and> (map_of a (js ''name'') = Some (JStr [])
               \<longrightarrow> getAuthorName post = Inr (JStr (js ''Unknown Author'')))
          \<and> (\<forall>name. map_of a (js ''name'') = Some name \<longrightarrow>
                getAuthorName post
                  = Inr (if truthy name then name else JStr (js ''Unknown Author''))))"
  using assms by (auto simp: getAuthorName_def)

text \<open>
  A post whose author has the empty name, a post whose author is Ann, and a post without
  embedded records.
\<close>

theorem getAuthorName_fallback_witness:
  "getAuthorName post_empty_name = Inr (JStr (js ''Unknown Author''))
   \<and> getAuthorName post_named = Inr (JStr (js ''Ann''))
   \<and> getAuthorName post_plain = Inr (JStr (js ''Unknown Author''))"
proof (intro conjI)
  let ?a1 = "[(js ''name'', JStr [])]"
  let ?e1 = "[(js ''author'', JArr [JObj ?a1])]"
  let ?k1 = "[(js ''id'', JNum 1), (js ''_embedded'', JObj ?e1)]"
  have "map_of ?k1 (js ''_embedded'') = Some (JObj ?e1)
        \<and> map_of ?e1 (js ''author'') = Some (JArr (JObj ?a1 # []))"
    by (simp add: js_neq)
  moreover have "map_of ?a1 (js ''name'') = Some (JStr [])"
    by simp
  ultimately show "getAuthorName post_empty_name = Inr (JStr (js ''Unknown Author''))"
    using getAuthorName_fallback [of post_empty_name ?k1 ?e1 ?a1 "[]"]
    unfolding post_empty_name_def by blast
next
  let ?a2 = "[(js ''name'', JStr (js ''Ann''))]"
  let ?e2 = "[(js ''author'', JArr [JObj ?a2])]"
  let ?k2 = "[(js ''id'', JNum 2), (js ''_embedded'', JObj ?e2)]"
  have "map_of ?k2 (js ''_embedded'') = Some (JObj ?e2)
        \<and> map_of ?e2 (js ''author'') = Some (JArr (JObj ?a2 # []))"
    by (simp add: js_neq)
  moreover have "map_of ?a2 (js ''name'') = Some (JStr (js ''Ann''))"
    by simp
  ultimately have "getAuthorName post_named
      = Inr (if truthy (JStr (js ''Ann'')) then JStr (js ''Ann'') else JStr (js ''Unknown Author''))"
    using getAuthorName_fallback [of post_named ?k2 ?e2 ?a2 "[]"]
    unfolding post_named_def by blast
  then show "getAuthorName post_named = Inr (JStr (js ''Ann''))"
    by simp
next
  have "map_of [(js ''id'', JNum 3)] (js ''_embedded'') = None"
    by (simp add: js_neq)
  then show "getAuthorName post_plain = Inr (JStr (js ''Unknown Author''))"
    using getAuthorName_fallback [of post_plain "[(js ''id'', JNum 3)]"]
    unfolding post_plain_def by blast
qed


section \<open>Totals from the response headers\<close>

lemma getPosts_success:
  assumes "fetch (GetPosts (queryParams ps)) = Response r" and "ok r" and "body r = Some b"
  shows "getPosts fetch ps =
           \<lparr>posts = b,
            totalPages = parseInt (str_or (headers r (js ''X-WP-TotalPages'')) (js ''1'')),
            totalPosts = parseInt (str_or (headers r (js ''X-WP-Total'')) (js ''0'')),
            currentPage = page_of ps\<rparr>"
  using assms by (simp add: getPosts_def getPosts_try_def Let_def)

lemma getPosts_failure:
  assumes "getPosts_try fetch ps = Inl e"
  shows "getPosts fetch ps =
           \<lparr>posts = JArr [], totalPages = Num 1, totalPosts = Num 0, currentPage = Num 1\<rparr>"
  using assms by (simp add: getPosts_def)

lemma header_neq:
  "js ''X-WP-TotalPages'' \<noteq> js ''X-WP-Total''" "js ''X-WP-Total'' \<noteq> js ''X-WP-TotalPages''"
  by (simp_all add: js_def)

lemma parseInt_small:
  "parseInt (js ''0'') = Num 0" "parseInt (js ''1'') = Num 1" "parseInt (js ''12'') = Num 12"
  "parseInt (js ''abc'') = NaN" "parseInt (js ''many'') = NaN"
  by code_simp+

text \<open>
  C4, as the code has it. On a successful response \<open>totalPosts\<close> comes from the header
  \<open>X-WP-Total\<close> and \<open>totalPages\<close> from \<open>X-WP-TotalPages\<close>: the default, 0 and 1, when
  the header is absent or empty; otherwise what \<open>parseInt\<close> reads from the header. That is
  \<open>NaN\<close>, not the default, exactly when the header does not start with a number (a
  decimal digit, or a hexadecimal digit behind \<open>0x\<close>, after white space and one sign);
  and it is the integer itself when the header is the decimal form of an integer below
  \<open>2^53\<close> in absolute value.
\<close>

theorem getPosts_totals:
  assumes "fetch (GetPosts (queryParams ps)) = Response r" and "ok r" and "body r = Some b"
  shows "totalPosts (getPosts fetch ps)
           = (case headers r (js ''X-WP-Total'') of
                None \<Rightarrow> Num 0 | Some h \<Rightarrow> if h = [] then Num 0 else parseInt h)
       \<and> totalPages (getPosts fetch ps)
           = (case headers r (js ''X-WP-TotalPages'') of
                None \<Rightarrow> Num 1 | Some h \<Rightarrow> if h = [] then Num 1 else parseInt h)
       \<and> (headers r (js ''X-WP-Total'') = Some h \<and> h \<noteq> []
            \<longrightarrow> (totalPosts (getPosts fetch ps) = NaN \<longleftrightarrow> \<not> startsWithDigits h))
       \<and> (headers r (js ''X-WP-TotalPages'') = Some h' \<and> h' \<noteq> []
            \<longrightarrow> (totalPages (getPosts fetch ps) = NaN \<longleftrightarrow> \<not> startsWithDigits h'))
       \<and> (\<bar>n\<bar> < 9007199254740992 \<and> headers r (js ''X-WP-Total'') = Some (numToString (Num n))
            \<longrightarrow> totalPosts (getPosts fetch ps) = Num n)
       \<and> (\<bar>m\<bar> < 9007199254740992
            \<and> headers r (js ''X-WP-TotalPages'') = Some (numToString (Num m))
            \<longrightarrow> totalPages (getPosts fetch ps) = Num m)"
proof -
  note result = getPosts_success [of fetch ps r b, OF assms]
  have 1: "totalPosts (getPosts fetch ps)
           = (case headers r (js ''X-WP-Total'') of
                None \<Rightarrow> Num 0 | Some h \<Rightarrow> if h = [] then Num 0 else parseInt h)"
    by (simp add: result parseInt_small split: option.split)
  have 2: "totalPages (getPosts fetch ps)
           = (case headers r (js ''X-WP-TotalPages'') of
                None \<Rightarrow> Num 1 | Some h \<Rightarrow> if h = [] then Num 1 else parseInt h)"
    by (simp add: result parseInt_small split: option.split)
  have 3: "headers r (js ''X-WP-Total'') = Some h \<and> h \<noteq> []
            \<longrightarrow> (totalPosts (getPosts fetch ps) = NaN \<longleftrightarrow> \<not> startsWithDigits h)"
    by (simp add: 1 parseInt_NaN_iff)
  have 4: "headers r (js ''X-WP-TotalPages'') = Some h' \<and> h' \<noteq> []
            \<longrightarrow> (totalPages (getPosts fetch ps) = NaN \<longleftrightarrow> \<not> startsWithDigits h')"
    by (simp add: 2 parseInt_NaN_iff)
  have 5: "\<bar>n\<bar> < 9007199254740992 \<and> headers r (js ''X-WP-Total'') = Some (numToString (Num n))
            \<longrightarrow> totalPosts (getPosts fetch ps) = Num n"
    by (simp add: result str_or_numToString parseInt_numToString
        del: numToString.simps str_or.simps)
  have 6: "\<bar>m\<bar> < 9007199254740992
            \<and> headers r (js ''X-WP-TotalPages'') = Some (numToString (Num m))
            \<longrightarrow> totalPages (getPosts fetch ps) = Num m"
    by (simp add: result str_or_numToString parseInt_numToString
        del: numToString.simps str_or.simps)
  from 1 2 3 4 5 6 show ?thesis by blast
qed

text \<open>No headers give the defaults; the headers 12 and 2 give 12 and 2.\<close>

theorem getPosts_totals_witness:
  "totalPosts (getPosts upstream_no_headers (HomePage_params None)) = Num 0
   \<and> totalPages (getPosts upstream_no_headers (HomePage_params None)) = Num 1
   \<and> totalPosts (getPosts upstream_two_pages (HomePage_params None)) = Num 12
   \<and> totalPages (getPosts upstream_two_pages (HomePage_params None)) = Num 2"
proof -
  let ?ps = "HomePage_params None"
  let ?r1 = "\<lparr>ok = True, headers = Map.empty,
               body = Some (JArr [JObj [(js ''slug'', JStr (js ''hello-world''))]])\<rparr>"
  let ?r2 = "\<lparr>ok = True,
              headers = [js ''X-WP-Total'' \<mapsto> js ''12'', js ''X-WP-TotalPages'' \<mapsto> js ''2''],
              body = Some (JArr [])\<rparr>"
  have a: "upstream_no_headers (GetPosts (queryParams ?ps)) = Response ?r1"
    by (simp add: upstream_no_headers_def)
  have b: "upstream_two_pages (GetPosts (queryParams ?ps)) = Response ?r2"
    by (simp add: upstream_two_pages_def)
  have n12: "numToString (Num 12) = js ''12''" and n2: "numToString (Num 2) = js ''2''"
    by code_simp+
  have 1: "totalPosts (getPosts upstream_no_headers ?ps) = Num 0
           \<and> totalPages (getPosts upstream_no_headers ?ps) = Num 1"
    using getPosts_totals [of upstream_no_headers ?ps ?r1 _ "[]" "[]" 0 1, OF a]
    by (simp del: numToString.simps)
  have "\<bar>12::int\<bar> < 9007199254740992
        \<and> headers ?r2 (js ''X-WP-Total'') = Some (numToString (Num 12))"
    and "\<bar>2::int\<bar> < 9007199254740992
        \<and> headers ?r2 (js ''X-WP-TotalPages'') = Some (numToString (Num 2))"
    by (simp_all add: n12 n2 header_neq del: numToString.simps)
  then have 2: "totalPosts (getPosts upstream_two_pages ?ps) = Num 12
           \<and> totalPages (getPosts upstream_two_pages ?ps) = Num 2"
    using getPosts_totals [of upstream_two_pages ?ps ?r2 "JArr []" "js ''12''" "js ''2''" 12 2, OF b]
    by (simp add: n12 n2 header_neq parseInt_small parseInt_2 del: numToString.simps)
  from 1 2 show ?thesis by simp
qed

text \<open>
  The headers \<open>X-WP-TotalPages: abc\<close> and \<open>X-WP-Total: many\<close>: the totals are
  \<open>NaN\<close>, not 1 and 0.
\<close>

theorem getPosts_totals_counterexample:
  "totalPages (getPosts upstream_bad_header (HomePage_params None)) \<noteq> Num 1
   \<and> totalPosts (getPosts upstream_bad_header (HomePage_params None)) \<noteq> Num 0"
  by (simp add: getPosts_def getPosts_try_def upstream_bad_header_def parseInt_small header_neq)

text \<open>
  A header of more digits than a double holds gives the nearest double: \<open>parseInt\<close> of
  \<open>9007199254740993\<close> is \<open>9007199254740992\<close>.
\<close>

lemma parseInt_rounds: "parseInt (js ''9007199254740993'') = Num 9007199254740992"
  by code_simp

section \<open>The requested page and the query parameters\<close>

text \<open>Of the upstream, \<open>getPosts\<close> sees only the answer to the one request it sends.\<close>

lemma getPosts_request:
  assumes "fetch (GetPosts (queryParams ps)) = fetch' (GetPosts (queryParams ps))"
  shows "getPosts fetch ps = getPosts fetch' ps"
  using assms by (simp add: getPosts_def getPosts_try_def)



lemma parseInt_3: "parseInt (js ''3'') = Num 3"
  by code_simp





lemma requestedPage_abc:
  "requestedPage (Some (js ''abc'')) = NaN
   \<and> queryParams (HomePage_params (Some (js ''abc'')))
       = [(js ''page'', js ''NaN''), (js ''per_page'', js ''9''), (js ''_embed'', js ''true'')]"
  by code_simp

text \<open>
  Parameters that start with a number give that number, whatever follows it; a number of
  more digits than a double holds gives the nearest double; and a page from \<open>10^21\<close> on
  is sent in exponent form.
\<close>

lemma requestedPage_examples:
  "map requestedPage
     [Some (js ''12px''), Some (js ''3.7''), Some (js ''1e3''), Some (js ''0x1f''),
      Some (js ''-2''), Some (js ''9007199254740993'')]
   = [Num 12, Num 3, Num 1, Num 31, Num (- 2), Num 9007199254740992]"
  by code_simp

lemma requestedPage_exponent:
  "queryParams (HomePage_params (Some (js ''1000000000000000000000'')))
     = [(js ''page'', js ''1e+21''), (js ''per_page'', js ''9''), (js ''_embed'', js ''true'')]"
  by code_simp

section \<open>The invariant of the page result\<close>

text \<open>
  C6, as the code has it. The empty result returned on a failure satisfies the invariant
  (for a page size of at least 0). On a successful response the result satisfies it
  exactly when the requested page is at least 1, the page count read from the header is
  at least 1, and the decoded body is an array of at most page-size elements:
  \<open>getPosts\<close> passes all three on as they come and checks none of them.
\<close>

theorem getPosts_invariant:
  "(getPosts_try fetch ps = Inl e \<and> num_le (Num 0) (perPage_of ps)
      \<longrightarrow> PageResult_invariant (perPage_of ps) (getPosts fetch ps))
   \<and> (fetch (GetPosts (queryParams ps)) = Response r \<and> ok r \<and> body r = Some b \<longrightarrow>
        (PageResult_invariant (perPage_of ps) (getPosts fetch ps) \<longleftrightarrow>
           num_le (Num 1) (page_of ps)
           \<and> num_le (Num 1) (parseInt (str_or (headers r (js ''X-WP-TotalPages'')) (js ''1'')))
           \<and> (\<exists>items. b = JArr items
                 \<and> num_le (Num (int (length items))) (perPage_of ps))))"
proof (intro conjI impI)
  assume "getPosts_try fetch ps = Inl e \<and> num_le (Num 0) (perPage_of ps)"
  then show "PageResult_invariant (perPage_of ps) (getPosts fetch ps)"
    by (simp add: getPosts_failure [of fetch ps e] PageResult_invariant_def)
next
  assume "fetch (GetPosts (queryParams ps)) = Response r \<and> ok r \<and> body r = Some b"
  then have "getPosts fetch ps =
           \<lparr>posts = b,
            totalPages = parseInt (str_or (headers r (js ''X-WP-TotalPages'')) (js ''1'')),
            totalPosts = parseInt (str_or (headers r (js ''X-WP-Total'')) (js ''0'')),
            currentPage = page_of ps\<rparr>"
    using getPosts_success [of fetch ps r b] by blast
  then show "PageResult_invariant (perPage_of ps) (getPosts fetch ps) \<longleftrightarrow>
           num_le (Num 1) (page_of ps)
           \<and> num_le (Num 1) (parseInt (str_or (headers r (js ''X-WP-TotalPages'')) (js ''1'')))
           \<and> (\<exists>items. b = JArr items
                 \<and> num_le (Num (int (length items))) (perPage_of ps))"
    by (cases b) (simp_all add: PageResult_invariant_def)
qed

text \<open>The home page on an upstream answering with an error and on one sending one post.\<close>

theorem getPosts_invariant_witness:
  "PageResult_invariant (Num 9) (getPosts upstream_error (HomePage_params None))
   \<and> PageResult_invariant (Num 9) (getPosts upstream_no_headers (HomePage_params None))"
proof
  let ?ps = "HomePage_params None"
  have s: "perPage_of ?ps = Num 9" and p: "page_of ?ps = Num 1"
    by (simp_all add: perPage_of_def page_of_def HomePage_params_def requestedPage_def parseInt_small)
  have "getPosts_try upstream_error ?ps = Inl (Error (js ''Failed to fetch posts''))
        \<and> num_le (Num 0) (perPage_of ?ps)"
    by (simp add: getPosts_try_def upstream_error_def s)
  with getPosts_invariant [of upstream_error ?ps "Error (js ''Failed to fetch posts'')"]
  have "PageResult_invariant (perPage_of ?ps) (getPosts upstream_error ?ps)"
    by blast
  then show "PageResult_invariant (Num 9) (getPosts upstream_error ?ps)"
    by (simp only: s)
  let ?b = "JArr [JObj [(js ''slug'', JStr (js ''hello-world''))]]"
  let ?r = "\<lparr>ok = True, headers = Map.empty, body = Some ?b\<rparr>"
  have "upstream_no_headers (GetPosts (queryParams ?ps)) = Response ?r \<and> ok ?r
        \<and> body ?r = Some ?b"
    by (simp add: upstream_no_headers_def)
  moreover have "num_le (Num 1) (page_of ?ps)
           \<and> num_le (Num 1) (parseInt (str_or (headers ?r (js ''X-WP-TotalPages'')) (js ''1'')))
           \<and> (\<exists>items. ?b = JArr items
                 \<and> num_le (Num (int (length items))) (perPage_of ?ps))"
    by (simp add: s p parseInt_small)
  ultimately have "PageResult_invariant (perPage_of ?ps) (getPosts upstream_no_headers ?ps)"
    using getPosts_invariant [of upstream_no_headers ?ps _ ?r ?b] by blast
  then show "PageResult_invariant (Num 9) (getPosts upstream_no_headers ?ps)"
    by (simp only: s)
qed

text \<open>
  An upstream without posts sends \<open>X-WP-TotalPages: 0\<close>; the result for the home page
  has \<open>totalPages = 0\<close> and breaks the invariant. So does a requested page 0.
\<close>

theorem getPosts_invariant_counterexample:
  "\<not> PageResult_invariant (Num 9) (getPosts upstream_no_posts (HomePage_params None))"
  by (simp add: PageResult_invariant_def getPosts_def getPosts_try_def upstream_no_posts_def
      parseInt_small header_neq)

lemma getPosts_page_zero:
  "currentPage (getPosts upstream_two_pages (HomePage_params (Some (js ''0'')))) = Num 0"
  by (simp add: getPosts_def getPosts_try_def upstream_two_pages_def HomePage_params_def
      requestedPage_def page_of_def parseInt_small)


end
